theory Spec2Isabelle
  imports Main "HOL-Library.Word"
begin

section \<open>The data of pkg/plugin/plugin.go\<close>

text \<open>
  A Go \<^verbatim>\<open>error\<close> value is identified with its message. A function returning
  \<^verbatim>\<open>(v, err)\<close> is a sum: \<open>Inl err\<close> when \<^verbatim>\<open>err != nil\<close>, \<open>Inr v\<close> otherwise.
  A panic is a separate outcome, and so is the end of the process by a fatal error of
  the runtime. \<open>Unspecified\<close> stands for an execution that Go gives no meaning to: a
  data race that the runtime did not notice.
\<close>

datatype error = errorString string

datatype 'a outcome = Return 'a | Panic string | Fatal string | Unspecified

definition err_of :: "error + 'a \<Rightarrow> error option" where
  "err_of r = (case r of Inl e \<Rightarrow> Some e | Inr _ \<Rightarrow> None)"

text \<open>\<^verbatim>\<open>time.Time\<close>: an instant, as a count of nanoseconds.\<close>

type_synonym time = int

record TimeRange =
  From :: time
  To :: time

text \<open>\<^verbatim>\<open>backend.DataQuery\<close>, with the fields the plugin reads.\<close>

record DataQuery =
  RefID :: string
  TimeRange :: TimeRange
  JSON :: string

record DataSourceInstanceSettings =
  URL :: string

record PluginContext =
  DataSourceInstanceSettings :: "DataSourceInstanceSettings option"

record QueryDataRequest =
  PluginContext :: PluginContext
  Queries :: "DataQuery list"

text \<open>
  The two instance structs of the plugin. An \<^verbatim>\<open>instancemgmt.Instance\<close> is an empty
  interface; the datatype lists the dynamic types a value of it has in this package.
\<close>

record JsonDatasourceInstance =
  dsInfo :: DataSourceInstanceSettings

record dataSourceInstance =
  settings :: DataSourceInstanceSettings

datatype Instance =
    JsonDatasourceInstance_ptr JsonDatasourceInstance
  | dataSourceInstance_ptr dataSourceInstance

text \<open>
  \<^verbatim>\<open>JsonDatasource\<close> holds an instance manager, an interface with the one method
  \<^verbatim>\<open>Get\<close>; the field is that method.
\<close>

record JsonDatasource =
  im :: "PluginContext \<Rightarrow> error + Instance"

text \<open>The JSON values of go-simplejson; an object keeps its keys unique.\<close>

datatype Json =
    JNull
  | JBool bool
  | JNumber string
  | JString string
  | JArray "Json list"
  | JObject "(string \<times> Json) list"

record http_request =
  Method :: string
  RequestURL :: string
  Header :: "(string \<times> string) list"
  Body :: string

text \<open>
  An \<^verbatim>\<open>http.Response\<close>; \<open>ReadAll_Body\<close> is what \<^verbatim>\<open>ioutil.ReadAll(res.Body)\<close>
  returns for it.
\<close>

record http_response =
  Status :: string
  StatusCode :: int
  ReadAll_Body :: "error + string"

text \<open>
  The declaration of \<^verbatim>\<open>RemoteDatasourceRequest\<close> is not among the sources; its fields
  are those of the composite literal at the end of \<^verbatim>\<open>createMetricRequest\<close>.
\<close>

record RemoteDatasourceRequest =
  queryType :: string
  req :: http_request
  queries :: Json

text \<open>
  The declaration of \<^verbatim>\<open>TargetResponseDTO\<close> is not among the sources either; its fields
  are those the commented-out decoder reads (\<^verbatim>\<open>r.Target\<close>, \<^verbatim>\<open>r.DataPoints\<close>,
  \<^verbatim>\<open>r.Columns\<close> with \<^verbatim>\<open>Text\<close> and \<^verbatim>\<open>Type\<close>, \<^verbatim>\<open>r.Rows\<close>), which are the keys
  of the README's response examples. Cells and points are kept as JSON values.
\<close>

record TableColumn =
  Text :: string
  Type :: string

record TargetResponseDTO =
  Target :: string
  DataPoints :: "Json list list"
  Columns :: "TableColumn list"
  Rows :: "Json list list"

text \<open>\<^verbatim>\<open>data.Field\<close>, \<^verbatim>\<open>data.Frame\<close> and \<^verbatim>\<open>backend.DataResponse\<close>.\<close>

datatype vector = TimeValues "time list" | Int64Values "64 word list"

record Field =
  FieldName :: string
  Labels :: "(string \<times> string) list option"
  Values :: vector

record Frame =
  Name :: string
  Fields :: "Field list"

record DataResponse =
  Frames :: "Frame list"
  Error :: "error option"

record QueryDataResponse =
  Responses :: "string \<rightharpoonup> DataResponse"

definition NewFrame :: "string \<Rightarrow> Frame" where
  "NewFrame name = \<lparr>Name = name, Fields = []\<rparr>"

definition NewField :: "string \<Rightarrow> (string \<times> string) list option \<Rightarrow> vector \<Rightarrow> Field" where
  "NewField name labels vals = \<lparr>FieldName = name, Labels = labels, Values = vals\<rparr>"

fun Len :: "Field \<Rightarrow> nat" where
  "Len f = (case Values f of TimeValues ts \<Rightarrow> length ts | Int64Values vs \<Rightarrow> length vs)"

definition NewQueryDataResponse :: QueryDataResponse where
  "NewQueryDataResponse = \<lparr>Responses = Map.empty\<rparr>"

section \<open>The libraries the plugin calls\<close>

text \<open>
  What the standard library and the network return is a parameter of every function
  below: the text of an instant (\<^verbatim>\<open>Time.String\<close>), the JSON parser
  (\<^verbatim>\<open>simplejson.NewJson\<close>), the serialiser (\<^verbatim>\<open>MarshalJSON\<close>), the error of
  \<^verbatim>\<open>http.NewRequest\<close> on a URL it cannot parse, the outcome of one
  \<^verbatim>\<open>ctxhttp.Do\<close> on the shared client (it may depend on the requests sent before, so
  an upstream that answers the same request differently each time is covered; a
  cancelled context and a timeout are among its errors), and
  \<^verbatim>\<open>json.Unmarshal\<close> into a slice of \<^verbatim>\<open>TargetResponseDTO\<close>.
\<close>

record env =
  time_String :: "time \<Rightarrow> string"
  NewJson :: "string \<Rightarrow> error + Json"
  MarshalJSON :: "Json \<Rightarrow> error + string"
  url_Parse_err :: "string \<Rightarrow> error option"
  ctxhttp_Do :: "http_request list \<Rightarrow> http_request \<Rightarrow> error + http_response"
  Unmarshal :: "string \<Rightarrow> error + TargetResponseDTO list"

text \<open>
  go-simplejson: \<^verbatim>\<open>New\<close> is the empty object; \<^verbatim>\<open>Set\<close> stores a key when the value
  is an object and does nothing otherwise; \<^verbatim>\<open>SetPath\<close> walks the branch, replacing
  whatever is not an object on the way by a fresh one, and stores the value under the
  last key (an empty branch replaces the whole value).
\<close>

fun store :: "string \<Rightarrow> Json \<Rightarrow> (string \<times> Json) list \<Rightarrow> (string \<times> Json) list" where
  "store k v [] = [(k, v)]"
| "store k v (p # ps) = (if fst p = k then (k, v) # ps else p # store k v ps)"

fun as_map :: "Json \<Rightarrow> (string \<times> Json) list" where
  "as_map (JObject m) = m"
| "as_map _ = []"

definition simplejson_New :: Json where
  "simplejson_New = JObject []"

fun Set :: "string \<Rightarrow> Json \<Rightarrow> Json \<Rightarrow> Json" where
  "Set key val (JObject m) = JObject (store key val m)"
| "Set key val j = j"

fun SetPath :: "string list \<Rightarrow> Json \<Rightarrow> Json \<Rightarrow> Json" where
  "SetPath [] val j = val"
| "SetPath [k] val j = JObject (store k val (as_map j))"
| "SetPath (b # bs) val j =
     (let m = as_map j;
          child = (case map_of m b of None \<Rightarrow> JObject [] | Some c \<Rightarrow> c)
      in JObject (store b (SetPath bs val child) m))"

text \<open>Reading a path back (\<^verbatim>\<open>GetPath\<close>), for stating what a payload holds.\<close>

fun GetPath :: "string list \<Rightarrow> Json \<Rightarrow> Json option" where
  "GetPath [] j = Some j"
| "GetPath (b # bs) (JObject m) = (case map_of m b of None \<Rightarrow> None | Some c \<Rightarrow> GetPath bs c)"
| "GetPath (b # bs) j = None"

text \<open>\<^verbatim>\<open>http.NewRequest\<close> and \<^verbatim>\<open>Header.Add\<close>.\<close>

definition http_NewRequest :: "env \<Rightarrow> string \<Rightarrow> string \<Rightarrow> string \<Rightarrow> error + http_request" where
  "http_NewRequest E method url body =
     (case url_Parse_err E url of
        Some err \<Rightarrow> Inl err
      | None \<Rightarrow> Inr \<lparr>Method = method, RequestURL = url, Header = [], Body = body\<rparr>)"

definition Header_Add :: "string \<Rightarrow> string \<Rightarrow> http_request \<Rightarrow> http_request" where
  "Header_Add k v r = r\<lparr>Header := Header r @ [(k, v)]\<rparr>"

text \<open>
  \<^verbatim>\<open>datasource.NewInstanceManager(factory)\<close> of the plugin SDK: \<^verbatim>\<open>Get\<close> fails when
  the context carries no datasource settings and otherwise hands out what the factory
  made for them.
\<close>

definition NewInstanceManager ::
  "(DataSourceInstanceSettings \<Rightarrow> error + Instance) \<Rightarrow> PluginContext \<Rightarrow> error + Instance" where
  "NewInstanceManager factory ctx =
     (case DataSourceInstanceSettings ctx of
        None \<Rightarrow> Inl (errorString ''data source instance settings cannot be nil'')
      | Some s \<Rightarrow> factory s)"

section \<open>The plugin\<close>

definition newJsonDatasourceInstance :: "DataSourceInstanceSettings \<Rightarrow> error + Instance" where
  "newJsonDatasourceInstance s = Inr (JsonDatasourceInstance_ptr \<lparr>dsInfo = s\<rparr>)"

definition NewJsonDatasource :: JsonDatasource where
  "NewJsonDatasource = \<lparr>im = NewInstanceManager newJsonDatasourceInstance\<rparr>"

text \<open>
  \<^verbatim>\<open>getInstance\<close>: the type assertion \<^verbatim>\<open>instance.(*dataSourceInstance)\<close> has no
  comma-ok form, so it panics on any other dynamic type.
\<close>

definition getInstance :: "JsonDatasource \<Rightarrow> PluginContext \<Rightarrow> (error + dataSourceInstance) outcome" where
  "getInstance ds ctx =
     (case im ds ctx of
        Inl err \<Rightarrow> Return (Inl err)
      | Inr i \<Rightarrow>
          (case i of
             dataSourceInstance_ptr d \<Rightarrow> Return (Inr d)
           | JsonDatasourceInstance_ptr _ \<Rightarrow>
               Panic ''interface conversion: interface {} is *plugin.JsonDatasourceInstance, not *plugin.dataSourceInstance''))"

text \<open>Lines 167 to 170 of \<^verbatim>\<open>createMetricRequest\<close>: the payload.\<close>

definition metricPayload :: "env \<Rightarrow> DataQuery \<Rightarrow> Json \<Rightarrow> Json" where
  "metricPayload E q jsonQueries =
     (let payload = simplejson_New;
          payload = SetPath [''range'', ''to''] (JString (time_String E (From (TimeRange q)))) payload;
          payload = SetPath [''range'', ''from''] (JString (time_String E (To (TimeRange q)))) payload
      in Set ''targets'' jsonQueries payload)"

definition createMetricRequest ::
  "env \<Rightarrow> DataQuery \<Rightarrow> dataSourceInstance \<Rightarrow> error + RemoteDatasourceRequest" where
  "createMetricRequest E q inst =
     (case NewJson E (JSON q) of
        Inl err \<Rightarrow> Inl err
      | Inr jsonQueries \<Rightarrow>
          (case MarshalJSON E (metricPayload E q jsonQueries) of
             Inl err \<Rightarrow> Inl err
           | Inr body \<Rightarrow>
               (let url = URL (settings inst) @ ''/query'' in
                case http_NewRequest E ''POST'' url body of
                  Inl err \<Rightarrow> Inl err
                | Inr r \<Rightarrow>
                    Inr \<lparr>queryType = ''query'',
                         req = Header_Add ''Content-Type'' ''application/json'' r,
                         queries = jsonQueries\<rparr>)))"

text \<open>
  \<^verbatim>\<open>makeHttpRequest\<close>. The second component is the wire: the requests handed to
  \<^verbatim>\<open>ctxhttp.Do\<close> so far, oldest first.
\<close>

type_synonym wire = "http_request list"

definition makeHttpRequest ::
  "env \<Rightarrow> wire \<Rightarrow> RemoteDatasourceRequest \<Rightarrow> (error + string) \<times> wire" where
  "makeHttpRequest E w remoteDsReq =
     (case ctxhttp_Do E w (req remoteDsReq) of
        Inl err \<Rightarrow> (Inl err, w @ [req remoteDsReq])
      | Inr res \<Rightarrow>
          if StatusCode res \<noteq> 200
          then (Inl (errorString (''invalid status code. status: '' @ Status res)),
                w @ [req remoteDsReq])
          else (case ReadAll_Body res of
                  Inl err \<Rightarrow> (Inl err, w @ [req remoteDsReq])
                | Inr body \<Rightarrow> (Inr body, w @ [req remoteDsReq])))"

definition parseQueryResponse :: "env \<Rightarrow> DataQuery \<Rightarrow> string \<Rightarrow> DataResponse" where
  "parseQueryResponse E q body =
     (let response = \<lparr>Frames = [], Error = None\<rparr>;
          response = response\<lparr>Error := err_of (Unmarshal E body)\<rparr>
      in if Error response \<noteq> None then response
         else
          (let frame = NewFrame ''response'';
               frame = frame\<lparr>Fields := Fields frame @
                 [NewField ''time'' None (TimeValues [From (TimeRange q), To (TimeRange q)]),
                  NewField ''values'' None (Int64Values [10, 20])]\<rparr>
           in response\<lparr>Frames := Frames response @ [frame]\<rparr>))"

text \<open>
  \<^verbatim>\<open>query\<close>. The variable \<^verbatim>\<open>err\<close> is assigned twice; the third return reads the
  value the call of \<^verbatim>\<open>makeHttpRequest\<close> left in it.
\<close>

definition query :: "env \<Rightarrow> wire \<Rightarrow> DataQuery \<Rightarrow> dataSourceInstance \<Rightarrow> DataResponse \<times> wire" where
  "query E w q inst =
     (case createMetricRequest E q inst of
        Inl err \<Rightarrow> (\<lparr>Frames = [], Error = Some err\<rparr>, w)
      | Inr remoteDsReq \<Rightarrow>
          (let (r, w') = makeHttpRequest E w remoteDsReq;
               err = err_of r
           in case r of
                Inl _ \<Rightarrow> (\<lparr>Frames = [], Error = err\<rparr>, w')
              | Inr body \<Rightarrow>
                  (let res = parseQueryResponse E q body
                   in if Error res \<noteq> None then (\<lparr>Frames = [], Error = err\<rparr>, w')
                      else (res, w'))))"

text \<open>
  The goroutine that \<^verbatim>\<open>QueryData\<close> starts for one query, by the point it has
  reached: started (before line 127), with the result of \<^verbatim>\<open>ds.query\<close> in hand
  (before line 128), and inside the assignment \<^verbatim>\<open>responses.Responses[q.RefID] = res\<close>
  of line 128. The response map is shared by all goroutines of the call and no lock
  guards it.
\<close>

datatype goroutine =
    Started DataQuery
  | Computed DataQuery DataResponse
  | Assigning DataQuery DataResponse

fun query_of :: "goroutine \<Rightarrow> DataQuery" where
  "query_of (Started q) = q"
| "query_of (Computed q res) = q"
| "query_of (Assigning q res) = q"

fun steps_left :: "goroutine \<Rightarrow> nat" where
  "steps_left (Started q) = 3"
| "steps_left (Computed q res) = 2"
| "steps_left (Assigning q res) = 1"

text \<open>
  The runtime's map assignment raises the flag \<^verbatim>\<open>hashWriting\<close> of the map when it
  begins and lowers it when it ends: the flag is up exactly while some goroutine is
  inside an assignment.
\<close>

fun hashWriting :: "goroutine list \<Rightarrow> bool" where
  "hashWriting [] = False"
| "hashWriting (Assigning q res # gs) = True"
| "hashWriting (g # gs) = hashWriting gs"

text \<open>
  The scheduler: each entry of a schedule says which of the live goroutines moves next
  and, should that move begin a map assignment while another one is under way, whether
  the runtime notices. A schedule that has run out lets the first live goroutine move.
\<close>

type_synonym schedule = "(nat \<times> bool) list"

definition pick :: "schedule \<Rightarrow> nat \<Rightarrow> nat" where
  "pick sched n = (case sched of [] \<Rightarrow> 0 | c # _ \<Rightarrow> fst c mod n)"

definition noticed :: "schedule \<Rightarrow> bool" where
  "noticed sched = (case sched of [] \<Rightarrow> True | c # _ \<Rightarrow> snd c)"

text \<open>
  One move of the chosen goroutine. A started goroutine runs its query. A goroutine with
  its result begins the assignment; when the flag is already up, two map writes overlap:
  the runtime, if it notices, ends the process with
  \<^verbatim>\<open>fatal error: concurrent map writes\<close>, and otherwise the execution has no defined
  meaning. A goroutine inside the assignment completes it, stores its result under its
  \<^verbatim>\<open>RefID\<close> and is done (\<^verbatim>\<open>wg.Done()\<close>).
\<close>

definition step ::
  "env \<Rightarrow> dataSourceInstance \<Rightarrow> schedule \<Rightarrow> goroutine list \<Rightarrow> QueryDataResponse \<times> wire \<Rightarrow>
   goroutine list outcome \<times> QueryDataResponse \<times> wire" where
  "step E inst sched gs s =
     (let i = pick sched (length gs)
      in case gs ! i of
           Started q \<Rightarrow>
             (let (res, w') = query E (snd s) q inst
              in (Return (gs[i := Computed q res]), (fst s, w')))
         | Computed q res \<Rightarrow>
             if hashWriting gs
             then (if noticed sched then Fatal ''concurrent map writes'' else Unspecified, s)
             else (Return (gs[i := Assigning q res]), s)
         | Assigning q res \<Rightarrow>
             (Return (take i gs @ drop (Suc i) gs),
              ((fst s)\<lparr>Responses := (Responses (fst s))(RefID q \<mapsto> res)\<rparr>, snd s)))"

text \<open>
  The goroutines run until none is left, which is when \<^verbatim>\<open>wg.Wait()\<close> returns.
\<close>

function run_goroutines ::
  "env \<Rightarrow> dataSourceInstance \<Rightarrow> schedule \<Rightarrow> goroutine list \<Rightarrow> QueryDataResponse \<times> wire \<Rightarrow>
   QueryDataResponse outcome \<times> wire" where
  "run_goroutines E inst sched [] s = (Return (fst s), snd s)"
| "run_goroutines E inst sched (g # gs) s =
     (case step E inst sched (g # gs) s of
        (Return gs', s') \<Rightarrow> run_goroutines E inst (tl sched) gs' s'
      | (Panic m, s') \<Rightarrow> (Panic m, snd s')
      | (Fatal m, s') \<Rightarrow> (Fatal m, snd s')
      | (Unspecified, s') \<Rightarrow> (Unspecified, snd s'))"
  by pat_completeness auto
termination
proof -
  have split: "sum_list (map steps_left gs) =
      sum_list (map steps_left (take i gs)) + steps_left (gs ! i) +
      sum_list (map steps_left (drop (Suc i) gs))"
    if "i < length gs" for i and gs :: "goroutine list"
  proof -
    have "gs = take i gs @ gs ! i # drop (Suc i) gs"
      using that by (rule id_take_nth_drop)
    then have "sum_list (map steps_left gs) =
        sum_list (map steps_left (take i gs @ gs ! i # drop (Suc i) gs))"
      by simp
    then show ?thesis by simp
  qed
  have upd: "sum_list (map steps_left (gs[i := g])) =
      sum_list (map steps_left (take i gs)) + steps_left g +
      sum_list (map steps_left (drop (Suc i) gs))"
    if "i < length gs" for i g and gs :: "goroutine list"
    using that by (simp add: upd_conv_take_nth_drop)
  have less: "pick sched (length gs) < length gs"
    if "gs \<noteq> []" for sched and gs :: "goroutine list"
    using that by (simp add: pick_def split: list.splits)
  have dec: "sum_list (map steps_left gs') < sum_list (map steps_left gs)"
    if ne: "gs \<noteq> []" and st: "step E inst sched gs s = (Return gs', s')"
    for E inst sched gs s gs' s'
  proof -
    let ?i = "pick sched (length gs)"
    have i: "?i < length gs" using ne by (rule less)
    note a = split [OF i] and b = upd [OF i]
    show ?thesis
    proof (cases "gs ! ?i")
      case (Started q)
      then have "gs' = gs[?i := Computed q (fst (query E (snd s) q inst))]"
        using st by (simp add: step_def Let_def split: prod.splits)
      then show ?thesis using a b Started by simp
    next
      case (Computed q res)
      then have "gs' = gs[?i := Assigning q res]"
        using st by (simp add: step_def Let_def split: if_splits)
      then show ?thesis using a b Computed by simp
    next
      case (Assigning q res)
      then have "gs' = take ?i gs @ drop (Suc ?i) gs"
        using st by (simp add: step_def Let_def)
      then show ?thesis using a Assigning by simp
    qed
  qed
  show ?thesis
  proof (relation "measure (\<lambda>(E, inst, sched, gs, s). sum_list (map steps_left gs))", goal_cases)
    case 1
    show ?case by simp
  next
    case 2
    then show ?case
      using dec [of "_ # _", OF _ sym] by simp
  qed
qed

definition QueryData ::
  "env \<Rightarrow> JsonDatasource \<Rightarrow> schedule \<Rightarrow> wire \<Rightarrow> QueryDataRequest \<Rightarrow>
   (error + QueryDataResponse) outcome \<times> wire" where
  "QueryData E ds sched w request =
     (let responses = NewQueryDataResponse
      in case getInstance ds (PluginContext request) of
           Return (Inl err) \<Rightarrow> (Return (Inl err), w)
         | Return (Inr inst) \<Rightarrow>
             (case run_goroutines E inst sched (map Started (Queries request)) (responses, w) of
                (Return responses', w') \<Rightarrow> (Return (Inr responses'), w')
              | (Panic m, w') \<Rightarrow> (Panic m, w')
              | (Fatal m, w') \<Rightarrow> (Fatal m, w')
              | (Unspecified, w') \<Rightarrow> (Unspecified, w'))
         | Panic m \<Rightarrow> (Panic m, w)
         | Fatal m \<Rightarrow> (Fatal m, w)
         | Unspecified \<Rightarrow> (Unspecified, w))"

section \<open>An example environment\<close>

text \<open>
  A datasource whose manager hands out \<^verbatim>\<open>*dataSourceInstance\<close> values, two queries
  over the hour from the epoch, and an upstream that answers the first request it gets
  with status 500 and every later one with status 200 and a two-point series.
\<close>

definition example_datasource :: JsonDatasource where
  "example_datasource =
     \<lparr>im = NewInstanceManager (\<lambda>s. Inr (dataSourceInstance_ptr \<lparr>settings = s\<rparr>))\<rparr>"

definition example_instance :: dataSourceInstance where
  "example_instance = \<lparr>settings = \<lparr>URL = ''http://localhost:3333''\<rparr>\<rparr>"

definition example_context :: PluginContext where
  "example_context = \<lparr>DataSourceInstanceSettings = Some \<lparr>URL = ''http://localhost:3333''\<rparr>\<rparr>"

definition query_A :: DataQuery where
  \<open>query_A = \<lparr>RefID = ''A'', TimeRange = \<lparr>From = 0, To = 3600000000000\<rparr>,
              JSON = ''{"target":"upper_50"}''\<rparr>\<close>

definition query_B :: DataQuery where
  \<open>query_B = \<lparr>RefID = ''B'', TimeRange = \<lparr>From = 0, To = 3600000000000\<rparr>,
              JSON = ''{"target":"upper_75"}''\<rparr>\<close>

definition T0 :: string where
  "T0 = ''1970-01-01 00:00:00 +0000 UTC''"

definition T1 :: string where
  "T1 = ''1970-01-01 01:00:00 +0000 UTC''"

definition example_String :: "time \<Rightarrow> string" where
  "example_String t = (if t = 0 then T0 else T1)"

definition example_NewJson :: "string \<Rightarrow> error + Json" where
  \<open>example_NewJson s =
     (if s = ''{"target":"upper_50"}'' then Inr (JObject [(''target'', JString ''upper_50'')])
      else if s = ''{"target":"upper_75"}'' then Inr (JObject [(''target'', JString ''upper_75'')])
      else Inl (errorString ''unexpected end of JSON input''))\<close>

definition body_A :: string where
  \<open>body_A = ''{"range":{"from":"1970-01-01 01:00:00 +0000 UTC","to":"1970-01-01 00:00:00 +0000 UTC"},"targets":{"target":"upper_50"}}''\<close>

definition body_B :: string where
  \<open>body_B = ''{"range":{"from":"1970-01-01 01:00:00 +0000 UTC","to":"1970-01-01 00:00:00 +0000 UTC"},"targets":{"target":"upper_75"}}''\<close>

definition example_MarshalJSON :: "Json \<Rightarrow> error + string" where
  "example_MarshalJSON j =
     (if j = JObject [(''range'', JObject [(''to'', JString T0), (''from'', JString T1)]),
                      (''targets'', JObject [(''target'', JString ''upper_50'')])]
      then Inr body_A
      else if j = JObject [(''range'', JObject [(''to'', JString T0), (''from'', JString T1)]),
                           (''targets'', JObject [(''target'', JString ''upper_75'')])]
      then Inr body_B
      else Inl (errorString ''json: unsupported value''))"

definition series_body :: string where
  \<open>series_body = ''[{"target":"upper_50","datapoints":[[622,1450754160000],[365,1450754220000]]}]''\<close>

definition ragged_body :: string where
  \<open>ragged_body = ''[{"columns":[{"text":"Time","type":"time"},{"text":"Number","type":"number"}],"rows":[[1234567,123],[1234568]],"type":"table"}]''\<close>

definition series_dto :: TargetResponseDTO where
  "series_dto =
     \<lparr>Target = ''upper_50'',
      DataPoints = [[JNumber ''622'', JNumber ''1450754160000''],
                    [JNumber ''365'', JNumber ''1450754220000'']],
      Columns = [], Rows = []\<rparr>"

definition ragged_dto :: TargetResponseDTO where
  "ragged_dto =
     \<lparr>Target = [], DataPoints = [],
      Columns = [\<lparr>Text = ''Time'', Type = ''time''\<rparr>, \<lparr>Text = ''Number'', Type = ''number''\<rparr>],
      Rows = [[JNumber ''1234567'', JNumber ''123''], [JNumber ''1234568'']]\<rparr>"

definition example_Unmarshal :: "string \<Rightarrow> error + TargetResponseDTO list" where
  "example_Unmarshal b =
     (if b = series_body then Inr [series_dto]
      else if b = ragged_body then Inr [ragged_dto]
      else Inl (errorString ''unexpected end of JSON input''))"

definition status_500 :: http_response where
  "status_500 = \<lparr>Status = ''500 Internal Server Error'', StatusCode = 500, ReadAll_Body = Inr []\<rparr>"

definition status_200 :: "string \<Rightarrow> http_response" where
  "status_200 b = \<lparr>Status = ''200 OK'', StatusCode = 200, ReadAll_Body = Inr b\<rparr>"

definition example_env :: env where
  "example_env =
     \<lparr>time_String = example_String,
      NewJson = example_NewJson,
      MarshalJSON = example_MarshalJSON,
      url_Parse_err = (\<lambda>u. None),
      ctxhttp_Do = (\<lambda>w r. if w = [] then Inr status_500 else Inr (status_200 series_body)),
      Unmarshal = example_Unmarshal\<rparr>"

text \<open>The same, with an upstream that answers every request 200 and the given body.\<close>

definition answering :: "string \<Rightarrow> env" where
  "answering b = example_env\<lparr>ctxhttp_Do := (\<lambda>w r. Inr (status_200 b))\<rparr>"

definition request_A :: http_request where
  "request_A =
     \<lparr>Method = ''POST'', RequestURL = ''http://localhost:3333/query'',
      Header = [(''Content-Type'', ''application/json'')], Body = body_A\<rparr>"

definition request_B :: http_request where
  "request_B =
     \<lparr>Method = ''POST'', RequestURL = ''http://localhost:3333/query'',
      Header = [(''Content-Type'', ''application/json'')], Body = body_B\<rparr>"

definition placeholder_frame :: "DataQuery \<Rightarrow> Frame" where
  "placeholder_frame q =
     \<lparr>Name = ''response'',
      Fields = [\<lparr>FieldName = ''time'', Labels = None,
                 Values = TimeValues [From (TimeRange q), To (TimeRange q)]\<rparr>,
                \<lparr>FieldName = ''values'', Labels = None, Values = Int64Values [10, 20]\<rparr>]\<rparr>"

section \<open>Auxiliary facts\<close>

lemmas example_defs =
  example_env_def example_NewJson_def example_String_def example_MarshalJSON_def
  example_Unmarshal_def example_datasource_def example_instance_def example_context_def
  query_A_def query_B_def request_A_def request_B_def status_500_def status_200_def
  series_body_def ragged_body_def series_dto_def ragged_dto_def body_A_def body_B_def
  T0_def T1_def answering_def placeholder_frame_def

lemmas plugin_defs =
  createMetricRequest_def metricPayload_def simplejson_New_def http_NewRequest_def
  Header_Add_def makeHttpRequest_def parseQueryResponse_def query_def step_def noticed_def
  QueryData_def getInstance_def NewInstanceManager_def NewQueryDataResponse_def
  NewFrame_def NewField_def err_of_def pick_def

subsection \<open>The scheduler\<close>

lemma pick_less: "0 < n \<Longrightarrow> pick sched n < n"
  by (simp add: pick_def split: list.splits)

lemma set_without_nth:
  assumes "i < length xs"
  shows "insert (xs ! i) (set (take i xs @ drop (Suc i) xs)) = set xs"
proof -
  have "xs = take i xs @ xs ! i # drop (Suc i) xs"
    using assms by (rule id_take_nth_drop)
  then have "set xs = set (take i xs @ xs ! i # drop (Suc i) xs)"
    by simp
  then show ?thesis by simp
qed

lemma map_update_same:
  assumes "i < length xs" and "f y = f (xs ! i)"
  shows "map f (xs[i := y]) = map f xs"
proof -
  have "map f (xs[i := y]) = (map f xs)[i := (map f xs) ! i]"
    using assms by (simp add: map_update)
  then show ?thesis by simp
qed

text \<open>
  A move that is not an overlap keeps the keys already written together with the keys
  of the goroutines still live.
\<close>

lemma step_keys:
  assumes ne: "gs \<noteq> []" and st: "step E inst sched gs s = (Return gs', s')"
  shows "dom (Responses (fst s')) \<union> RefID ` query_of ` set gs' =
         dom (Responses (fst s)) \<union> RefID ` query_of ` set gs"
proof -
  let ?i = "pick sched (length gs)"
  have i: "?i < length gs" using ne by (simp add: pick_less)
  show ?thesis
  proof (cases "gs ! ?i")
    case (Started q)
    then have gs': "gs' = gs[?i := Computed q (fst (query E (snd s) q inst))]"
      and s': "fst s' = fst s"
      using st by (auto simp: step_def Let_def split: prod.splits)
    have "map query_of gs' = map query_of gs"
      unfolding gs' by (rule map_update_same [OF i]) (simp add: Started)
    then have "query_of ` set gs' = query_of ` set gs"
      by (metis set_map)
    then show ?thesis by (simp add: s')
  next
    case (Computed q res)
    then have gs': "gs' = gs[?i := Assigning q res]" and s': "s' = s"
      using st by (auto simp: step_def Let_def split: if_splits)
    have "map query_of gs' = map query_of gs"
      unfolding gs' by (rule map_update_same [OF i]) (simp add: Computed)
    then have "query_of ` set gs' = query_of ` set gs"
      by (metis set_map)
    then show ?thesis by (simp add: s')
  next
    case (Assigning q res)
    then have gs': "gs' = take ?i gs @ drop (Suc ?i) gs"
      and s': "Responses (fst s') = (Responses (fst s))(RefID q \<mapsto> res)"
      using st by (auto simp: step_def Let_def)
    have "set gs = insert (gs ! ?i) (set gs')"
      unfolding gs' by (rule set_without_nth [OF i, symmetric])
    then have "RefID ` query_of ` set gs = insert (RefID q) (RefID ` query_of ` set gs')"
      by (simp add: Assigning)
    then show ?thesis by (simp add: s')
  qed
qed

text \<open>
  When the goroutines run to the end with no two map writes overlapping, the keys after
  the join are the keys before it and the identifiers of the goroutines.
\<close>

lemma run_goroutines_dom:
  "run_goroutines E inst sched gs s = (Return r, w') \<Longrightarrow>
   dom (Responses r) = dom (Responses (fst s)) \<union> RefID ` query_of ` set gs"
proof (induction E inst sched gs s rule: run_goroutines.induct)
  case (1 E inst sched s)
  then show ?case by simp
next
  case (2 E inst sched g gs s)
  obtain gs' s' where st: "step E inst sched (g # gs) s = (Return gs', s')"
    and rec: "run_goroutines E inst (tl sched) gs' s' = (Return r, w')"
    using "2.prems" by (auto split: prod.splits outcome.splits)
  have "dom (Responses r) = dom (Responses (fst s')) \<union> RefID ` query_of ` set gs'"
    using "2.IH" [OF st [symmetric] refl rec] .
  also have "\<dots> = dom (Responses (fst s)) \<union> RefID ` query_of ` set (g # gs)"
    by (rule step_keys [OF _ st]) simp
  finally show ?case .
qed

text \<open>
  So a result set that \<^verbatim>\<open>QueryData\<close> returns from such an execution has exactly the
  identifiers of the batch as its keys, and as many entries as queries when the
  identifiers are pairwise different.
\<close>

lemma QueryData_returned_keys:
  assumes "QueryData E ds sched w request = (Return (Inr r), w')"
  shows "dom (Responses r) = RefID ` set (Queries request)"
proof -
  obtain inst where
    "run_goroutines E inst sched (map Started (Queries request)) (NewQueryDataResponse, w) =
       (Return r, w')"
    using assms
    by (auto simp: QueryData_def split: outcome.splits sum.splits prod.splits)
  then have "dom (Responses r) =
      dom (Responses (fst (NewQueryDataResponse, w))) \<union>
        RefID ` query_of ` set (map Started (Queries request))"
    by (rule run_goroutines_dom)
  then show ?thesis
    by (simp add: NewQueryDataResponse_def image_image)
qed

lemma QueryData_returned_card:
  assumes "QueryData E ds sched w request = (Return (Inr r), w')"
    and "distinct (map RefID (Queries request))"
  shows "card (dom (Responses r)) = length (Queries request)"
proof -
  have "card (dom (Responses r)) = card (set (map RefID (Queries request)))"
    using QueryData_returned_keys [OF assms(1)] by simp
  also have "\<dots> = length (map RefID (Queries request))"
    using assms(2) by (rule distinct_card)
  finally show ?thesis by simp
qed

subsection \<open>The translator and the client\<close>

lemma metricPayload_value:
  "metricPayload E q j =
     JObject [(''range'', JObject [(''to'', JString (time_String E (From (TimeRange q)))),
                                  (''from'', JString (time_String E (To (TimeRange q))))]),
              (''targets'', j)]"
  by (simp add: metricPayload_def simplejson_New_def)

lemma metricPayload_paths:
  "GetPath [''range'', ''from''] (metricPayload E q j) =
     Some (JString (time_String E (To (TimeRange q)))) \<and>
   GetPath [''range'', ''to''] (metricPayload E q j) =
     Some (JString (time_String E (From (TimeRange q)))) \<and>
   GetPath [''targets''] (metricPayload E q j) = Some j"
  by (simp add: metricPayload_value)

text \<open>
  A request that \<^verbatim>\<open>createMetricRequest\<close> returns is a POST to the base URL followed by
  \<^verbatim>\<open>/query\<close>, with the one header \<^verbatim>\<open>Content-Type: application/json\<close>, and its body
  is the serialised payload.
\<close>

lemma createMetricRequest_shape:
  assumes "createMetricRequest E q inst = Inr r"
  shows "\<exists>j. NewJson E (JSON q) = Inr j \<and> queries r = j \<and>
             MarshalJSON E (metricPayload E q j) = Inr (Body (req r)) \<and>
             Method (req r) = ''POST'' \<and>
             RequestURL (req r) = URL (settings inst) @ ''/query'' \<and>
             Header (req r) = [(''Content-Type'', ''application/json'')]"
  using assms
  by (auto simp: createMetricRequest_def http_NewRequest_def Header_Add_def Let_def
      split: sum.splits option.splits)

lemma makeHttpRequest_wire: "snd (makeHttpRequest E w r) = w @ [req r]"
  by (simp add: makeHttpRequest_def split: sum.splits)

text \<open>An error of the translator or of the client is the error of the query's result.\<close>

lemma query_translate_error:
  "createMetricRequest E q inst = Inl err \<Longrightarrow>
   query E w q inst = (\<lparr>Frames = [], Error = Some err\<rparr>, w)"
  by (simp add: query_def)

lemma query_client_error:
  "createMetricRequest E q inst = Inr r \<Longrightarrow> makeHttpRequest E w r = (Inl err, w') \<Longrightarrow>
   query E w q inst = (\<lparr>Frames = [], Error = Some err\<rparr>, w')"
  by (simp add: query_def err_of_def)

text \<open>
  \<^verbatim>\<open>QueryData\<close> returns a top-level error exactly when \<^verbatim>\<open>getInstance\<close> returns one,
  and then nothing was sent.
\<close>

lemma QueryData_top_level_error:
  "QueryData E ds sched w request = (Return (Inl err), w') \<longleftrightarrow>
   getInstance ds (PluginContext request) = Return (Inl err) \<and> w' = w"
  by (auto simp: QueryData_def split: outcome.splits sum.splits prod.splits)

text \<open>
  The datasource that \<^verbatim>\<open>NewJsonDatasource\<close> builds: its factory makes
  \<^verbatim>\<open>*JsonDatasourceInstance\<close> values, and \<^verbatim>\<open>getInstance\<close> asserts
  \<^verbatim>\<open>*dataSourceInstance\<close>.
\<close>

lemma NewJsonDatasource_getInstance:
  "getInstance NewJsonDatasource ctx =
     (case DataSourceInstanceSettings ctx of
        None \<Rightarrow> Return (Inl (errorString ''data source instance settings cannot be nil''))
      | Some s \<Rightarrow> Panic ''interface conversion: interface {} is *plugin.JsonDatasourceInstance, not *plugin.dataSourceInstance'')"
  by (simp add: getInstance_def NewJsonDatasource_def NewInstanceManager_def
      newJsonDatasourceInstance_def split: option.splits)

subsection \<open>The example, evaluated\<close>

lemma createMetricRequest_A:
  "createMetricRequest example_env query_A example_instance =
     Inr \<lparr>queryType = ''query'', req = request_A,
          queries = JObject [(''target'', JString ''upper_50'')]\<rparr>"
  by (simp add: example_defs plugin_defs)

lemma createMetricRequest_B:
  "createMetricRequest example_env query_B example_instance =
     Inr \<lparr>queryType = ''query'', req = request_B,
          queries = JObject [(''target'', JString ''upper_75'')]\<rparr>"
  by (simp add: example_defs plugin_defs)

lemma query_B_500:
  "query example_env [] query_B example_instance =
     (\<lparr>Frames = [],
       Error = Some (errorString ''invalid status code. status: 500 Internal Server Error'')\<rparr>,
      [request_B])"
  unfolding query_def createMetricRequest_B
  by (simp add: makeHttpRequest_def example_env_def status_500_def err_of_def)

lemma query_A_500:
  "query example_env [] query_A example_instance =
     (\<lparr>Frames = [],
       Error = Some (errorString ''invalid status code. status: 500 Internal Server Error'')\<rparr>,
      [request_A])"
  unfolding query_def createMetricRequest_A
  by (simp add: makeHttpRequest_def example_env_def status_500_def err_of_def)

lemma query_A_200:
  "query example_env [request_B] query_A example_instance =
     (\<lparr>Frames = [placeholder_frame query_A], Error = None\<rparr>, [request_B, request_A])"
  unfolding query_def createMetricRequest_A
  by (simp add: makeHttpRequest_def example_env_def status_200_def err_of_def
      parseQueryResponse_def example_Unmarshal_def NewFrame_def NewField_def
      placeholder_frame_def)

lemma query_B_200:
  "query example_env [request_A] query_B example_instance =
     (\<lparr>Frames = [placeholder_frame query_B], Error = None\<rparr>, [request_A, request_B])"
  unfolding query_def createMetricRequest_B
  by (simp add: makeHttpRequest_def example_env_def status_200_def err_of_def
      parseQueryResponse_def example_Unmarshal_def NewFrame_def NewField_def
      placeholder_frame_def)

lemma example_getInstance:
  "getInstance example_datasource example_context = Return (Inr example_instance)"
  by (simp add: getInstance_def example_datasource_def example_context_def
      NewInstanceManager_def example_instance_def)

text \<open>
  The batch of A and B in an execution whose map writes do not overlap: B sends first
  and meets the status 500, A meets the status 200, A writes, then B writes.
\<close>

lemma example_batch:
  "QueryData example_env example_datasource [(1, True)] []
     \<lparr>PluginContext = example_context, Queries = [query_A, query_B]\<rparr> =
   (Return (Inr \<lparr>Responses =
      [''A'' \<mapsto> \<lparr>Frames = [placeholder_frame query_A], Error = None\<rparr>,
       ''B'' \<mapsto> \<lparr>Frames = [],
                Error = Some (errorString ''invalid status code. status: 500 Internal Server Error'')\<rparr>]\<rparr>),
    [request_B, request_A])"
  unfolding QueryData_def
  by (simp add: example_getInstance NewQueryDataResponse_def pick_def noticed_def step_def
      query_B_500 query_A_200) (simp add: query_A_def query_B_def)

section \<open>The fan-out: one slot per query\<close>

text \<open>
  Claim C1, at the batch of the two queries A and B on a datasource that resolves its
  instance. A runs its query and begins its write to the response map; B runs its query
  and begins its own write while that of A is under way. Nothing orders the two writes,
  and the call does not return a result set with one entry for A and one for B: the
  process ends with the runtime's fatal error when the runtime notices the overlap, and
  the execution has no defined result when it does not.
\<close>

theorem QueryData_concurrent_map_writes:
  "QueryData example_env example_datasource [(0, True), (0, True), (1, True), (1, True)] []
     \<lparr>PluginContext = example_context, Queries = [query_A, query_B]\<rparr> =
     (Fatal ''concurrent map writes'', [request_A, request_B]) \<and>
   QueryData example_env example_datasource [(0, True), (0, True), (1, True), (1, False)] []
     \<lparr>PluginContext = example_context, Queries = [query_A, query_B]\<rparr> =
     (Unspecified, [request_A, request_B])"
  unfolding QueryData_def
  by (simp add: example_getInstance NewQueryDataResponse_def pick_def noticed_def step_def
      query_A_500 query_B_200)




section \<open>Errors of one query\<close>

text \<open>
  Claim C2, at a batch of the one query A whose upstream answers 200 with an empty
  body: \<^verbatim>\<open>json.Unmarshal\<close> fails on it, and the slot of A in the result set has no
  frames and no error. The decode error is not captured as the query's failure.
\<close>

theorem QueryData_decode_error_lost:
  "Unmarshal (answering []) [] = Inl (errorString ''unexpected end of JSON input'') \<and>
   QueryData (answering []) example_datasource [] []
     \<lparr>PluginContext = example_context, Queries = [query_A]\<rparr> =
   (Return (Inr \<lparr>Responses = [''A'' \<mapsto> \<lparr>Frames = [], Error = None\<rparr>]\<rparr>), [request_A])"
  unfolding QueryData_def
  by (simp add: example_getInstance NewQueryDataResponse_def pick_def noticed_def step_def
      query_def)
     (simp add: example_defs plugin_defs)

text \<open>
  Claim C9. When the request was built and sent and a body came back, and
  \<^verbatim>\<open>parseQueryResponse\<close> returns a response with an error, \<^verbatim>\<open>query\<close> returns a
  response with no error and no frames.
\<close>

theorem query_drops_decode_error:
  assumes "createMetricRequest E q inst = Inr remoteDsReq"
    and "makeHttpRequest E w remoteDsReq = (Inr body, w')"
    and "Error (parseQueryResponse E q body) \<noteq> None"
  shows "query E w q inst = (\<lparr>Frames = [], Error = None\<rparr>, w')"
  using assms by (simp add: query_def err_of_def)

theorem query_drops_decode_error_witness:
  "createMetricRequest (answering []) query_B example_instance =
     Inr \<lparr>queryType = ''query'', req = request_B,
          queries = JObject [(''target'', JString ''upper_75'')]\<rparr> \<and>
   Error (parseQueryResponse (answering []) query_B []) =
     Some (errorString ''unexpected end of JSON input'') \<and>
   query (answering []) [] query_B example_instance =
     (\<lparr>Frames = [], Error = None\<rparr>, [request_B])"
proof -
  have c: "createMetricRequest (answering []) query_B example_instance =
     Inr \<lparr>queryType = ''query'', req = request_B,
          queries = JObject [(''target'', JString ''upper_75'')]\<rparr>"
    by (simp add: example_defs plugin_defs)
  have m: "makeHttpRequest (answering [])  []
      \<lparr>queryType = ''query'', req = request_B,
       queries = JObject [(''target'', JString ''upper_75'')]\<rparr> =
      (Inr [], [request_B])"
    by (simp add: makeHttpRequest_def answering_def status_200_def)
  have p: "Error (parseQueryResponse (answering []) query_B []) =
     Some (errorString ''unexpected end of JSON input'')"
    by (simp add: example_defs plugin_defs)
  from p have p': "Error (parseQueryResponse (answering []) query_B []) \<noteq> None"
    by simp
  show ?thesis
    using query_drops_decode_error [OF c m p'] c p by simp
qed

section \<open>The client\<close>

text \<open>
  Claim C6. One call of \<^verbatim>\<open>makeHttpRequest\<close> hands exactly one request to the HTTP
  client, whatever the outcome, and when the response has a status code other than 200
  it fails with the error whose message ends in the response's status.
\<close>

theorem makeHttpRequest_status_error:
  "snd (makeHttpRequest E w r) = w @ [req r] \<and>
   (\<forall>res. ctxhttp_Do E w (req r) = Inr res \<and> StatusCode res \<noteq> 200 \<longrightarrow>
      fst (makeHttpRequest E w r) =
        Inl (errorString (''invalid status code. status: '' @ Status res)))"
  by (simp add: makeHttpRequest_def split: sum.splits)

theorem makeHttpRequest_status_error_witness:
  "ctxhttp_Do example_env [] request_A = Inr status_500 \<and> StatusCode status_500 \<noteq> 200 \<and>
   makeHttpRequest example_env [] \<lparr>queryType = ''query'', req = request_A, queries = JNull\<rparr>
     = (Inl (errorString ''invalid status code. status: 500 Internal Server Error''),
        [request_A])"
  using makeHttpRequest_status_error
    [of example_env "[]" "\<lparr>queryType = ''query'', req = request_A, queries = JNull\<rparr>"]
  by (simp add: example_env_def status_500_def prod_eq_iff)

section \<open>The translator\<close>

text \<open>
  Claim C4, at query A, whose range starts at the epoch (\<open>T0\<close>) and ends an hour later
  (\<open>T1\<close>): the payload has the end of the range under \<^verbatim>\<open>range.from\<close> and the start
  under \<^verbatim>\<open>range.to\<close>, and the request body is that payload.
\<close>

theorem createMetricRequest_range_swapped:
  "time_String example_env (From (TimeRange query_A)) = T0 \<and>
   time_String example_env (To (TimeRange query_A)) = T1 \<and>
   T0 \<noteq> T1 \<and>
   GetPath [''range'', ''from'']
     (metricPayload example_env query_A (JObject [(''target'', JString ''upper_50'')])) =
     Some (JString T1) \<and>
   GetPath [''range'', ''to'']
     (metricPayload example_env query_A (JObject [(''target'', JString ''upper_50'')])) =
     Some (JString T0) \<and>
   createMetricRequest example_env query_A example_instance =
     Inr \<lparr>queryType = ''query'', req = request_A,
          queries = JObject [(''target'', JString ''upper_50'')]\<rparr>"
  by (simp add: metricPayload_value createMetricRequest_A)
     (simp add: example_env_def example_String_def query_A_def T0_def T1_def)

text \<open>
  Claim C7, at query B, whose JSON is the object \<^verbatim>\<open>{"target":"upper_75"}\<close>: the
  request is a POST to the base URL followed by \<^verbatim>\<open>/query\<close> with the JSON content
  type, and under \<^verbatim>\<open>targets\<close> the payload has that object itself, not an array.
\<close>

theorem createMetricRequest_targets_object:
  "NewJson example_env (JSON query_B) = Inr (JObject [(''target'', JString ''upper_75'')]) \<and>
   GetPath [''targets'']
     (metricPayload example_env query_B (JObject [(''target'', JString ''upper_75'')])) =
     Some (JObject [(''target'', JString ''upper_75'')]) \<and>
   createMetricRequest example_env query_B example_instance =
     Inr \<lparr>queryType = ''query'', req = request_B,
          queries = JObject [(''target'', JString ''upper_75'')]\<rparr>"
  by (simp add: metricPayload_value createMetricRequest_B)
     (simp add: example_env_def example_NewJson_def query_B_def)

section \<open>The decoder\<close>

text \<open>
  Claim C10. For one query, two bodies that both unmarshal decode to the same response:
  one frame with the time column of the two ends of the query's range and the values
  column 10, 20.
\<close>

theorem parseQueryResponse_ignores_body:
  assumes "Unmarshal E b1 = Inr d1" and "Unmarshal E b2 = Inr d2"
  shows "parseQueryResponse E q b1 = parseQueryResponse E q b2 \<and>
         parseQueryResponse E q b1 =
           \<lparr>Frames = [\<lparr>Name = ''response'',
               Fields = [\<lparr>FieldName = ''time'', Labels = None,
                           Values = TimeValues [From (TimeRange q), To (TimeRange q)]\<rparr>,
                         \<lparr>FieldName = ''values'', Labels = None,
                           Values = Int64Values [10, 20]\<rparr>]\<rparr>],
            Error = None\<rparr>"
  using assms by (simp add: parseQueryResponse_def err_of_def NewFrame_def NewField_def)

theorem parseQueryResponse_ignores_body_witness:
  "Unmarshal example_env series_body = Inr [series_dto] \<and>
   Unmarshal example_env ragged_body = Inr [ragged_dto] \<and>
   series_body \<noteq> ragged_body \<and>
   parseQueryResponse example_env query_A series_body =
     parseQueryResponse example_env query_A ragged_body"
proof -
  have a: "Unmarshal example_env series_body = Inr [series_dto]"
    by (simp add: example_env_def example_Unmarshal_def)
  have b: "Unmarshal example_env ragged_body = Inr [ragged_dto]"
    by (simp add: example_env_def example_Unmarshal_def series_body_def ragged_body_def)
  have c: "series_body \<noteq> ragged_body"
    by (simp add: series_body_def ragged_body_def)
  show ?thesis
    using parseQueryResponse_ignores_body [OF a b, of query_A] a b c by simp
qed

text \<open>
  Claim C5. The decoder does not look at the columns of the upstream response: the
  error of the decoded response is the error of \<^verbatim>\<open>json.Unmarshal\<close> and nothing else,
  so a body that unmarshals is a success whatever the lengths of its columns. On
  success every frame has a time column, and every column of the frame has the length
  of the time column.
\<close>

theorem parseQueryResponse_columns:
  "Error (parseQueryResponse E q body) = err_of (Unmarshal E body) \<and>
   (Error (parseQueryResponse E q body) = None \<longrightarrow>
      (\<forall>fr\<in>set (Frames (parseQueryResponse E q body)).
         (\<exists>t\<in>set (Fields fr). FieldName t = ''time'') \<and>
         (\<forall>t\<in>set (Fields fr). \<forall>f\<in>set (Fields fr).
            FieldName t = ''time'' \<longrightarrow> Len f = Len t)))"
  by (cases "Unmarshal E body")
     (simp_all add: parseQueryResponse_def NewFrame_def NewField_def err_of_def)

theorem parseQueryResponse_columns_witness:
  "Error (parseQueryResponse example_env query_A series_body) = None \<and>
   Frames (parseQueryResponse example_env query_A series_body) = [placeholder_frame query_A] \<and>
   map Len (Fields (placeholder_frame query_A)) = [2, 2]"
  using parseQueryResponse_columns [of example_env query_A series_body]
  by (simp add: example_defs plugin_defs)

text \<open>
  The claim as written fails at a table whose first row has two cells and whose second
  row has one, so that its second column is shorter than its time column: the body
  unmarshals, and the decoder returns the success it returns for every such body.
\<close>

theorem parseQueryResponse_ragged_rows:
  "Unmarshal example_env ragged_body = Inr [ragged_dto] \<and>
   map length (Rows ragged_dto) = [2, 1] \<and>
   parseQueryResponse example_env query_A ragged_body =
     \<lparr>Frames = [placeholder_frame query_A], Error = None\<rparr>"
  by (simp add: example_defs plugin_defs)

end
